theory Spec2Isabelle
  imports Complex_Main "HOL-Library.Sublist"
begin

section \<open>The chart renderer of EchoMind (ChartCanvas in the result page)\<close>

text \<open>
  The component \<^verbatim>\<open>ChartCanvas\<close> paints a line graph or a bar chart on a canvas inside a
  React effect. The effect is embedded as a function from the canvas (or null), the
  \<^verbatim>\<open>data\<close> prop and the \<^verbatim>\<open>type\<close> prop to the list of calls it makes on the 2D
  context, in order, together with the exception that ended it, if any.

  What the embedding abstracts from:
  \<^item> numbers are exact rationals or NaN: rounding of doubles, the infinities and the
    negative zero are left out;
  \<^item> the data is what JSON gives: undefined, null, booleans, numbers, strings, arrays
    and records; a record is the list of its own properties in the order they were
    added, each key once, and \<^verbatim>\<open>Object.keys\<close> puts the array indices first;
  \<^item> what the language runtime decides is a parameter (\<open>rt\<close>) of the model:
    \<^verbatim>\<open>ToNumber\<close> on a string or an array, and the members a value inherits from its
    prototype chain;
  \<^item> the text \<^verbatim>\<open>val.toFixed(2)\<close> is kept symbolic;
  \<^item> a canvas that is not null has a 2D context, and its width and height are natural
    numbers.
\<close>

subsection \<open>Values\<close>

datatype jsnum = NaN | Fin rat

datatype jsval =
    Undefined
  | Null
  | VBool bool
  | VNum jsnum
  | VStr string
  | VArr "jsval list"
  | VObj "(string \<times> jsval) list"

datatype jserror = TypeError

text \<open>The prototype chain of a value depends on its kind only.\<close>

datatype kind = KBool | KNum | KStr | KArr | KObj

text \<open>
  What \<^verbatim>\<open>v[key]\<close> reads: an own property, or a member inherited from the prototype
  chain. An inherited member is a function or a prototype object: it is truthy and it
  is not a number; all the code does with it besides is to multiply it, so it is given
  by its \<^verbatim>\<open>ToNumber\<close>.
\<close>

datatype member = Own jsval | Inherited jsnum

record runtime =
  string_to_number :: "jsval \<Rightarrow> jsnum"
  inherited :: "kind \<Rightarrow> string \<Rightarrow> jsnum option"

text \<open>\<^verbatim>\<open>!v\<close> is false exactly on the truthy values.\<close>

fun truthy :: "jsval \<Rightarrow> bool" where
  "truthy Undefined = False"
| "truthy Null = False"
| "truthy (VBool b) = b"
| "truthy (VNum NaN) = False"
| "truthy (VNum (Fin q)) = (q \<noteq> 0)"
| "truthy (VStr s) = (s \<noteq> [])"
| "truthy (VArr xs) = True"
| "truthy (VObj kvs) = True"

fun truthy_member :: "member \<Rightarrow> bool" where
  "truthy_member (Own v) = truthy v"
| "truthy_member (Inherited n) = True"

text \<open>\<^verbatim>\<open>ToNumber\<close>, as the operator \<^verbatim>\<open>*\<close> applies it.\<close>

fun to_number :: "runtime \<Rightarrow> jsval \<Rightarrow> jsnum" where
  "to_number rt Undefined = NaN"
| "to_number rt Null = Fin 0"
| "to_number rt (VBool b) = Fin (if b then 1 else 0)"
| "to_number rt (VNum n) = n"
| "to_number rt (VStr s) = string_to_number rt (VStr s)"
| "to_number rt (VArr xs) = string_to_number rt (VArr xs)"
| "to_number rt (VObj kvs) = NaN"

fun member_to_number :: "runtime \<Rightarrow> member \<Rightarrow> jsnum" where
  "member_to_number rt (Own v) = to_number rt v"
| "member_to_number rt (Inherited n) = n"

fun nmul :: "jsnum \<Rightarrow> jsnum \<Rightarrow> jsnum" where
  "nmul (Fin a) (Fin b) = Fin (a * b)"
| "nmul _ _ = NaN"

fun nsub :: "jsnum \<Rightarrow> jsnum \<Rightarrow> jsnum" where
  "nsub (Fin a) (Fin b) = Fin (a - b)"
| "nsub _ _ = NaN"

subsection \<open>Keys\<close>

text \<open>The decimal numeral of an array index, as \<^verbatim>\<open>Object.keys\<close> of an array gives it.\<close>

definition digit_char :: "nat \<Rightarrow> char" where
  "digit_char d = ''0123456789'' ! d"

fun digits :: "nat \<Rightarrow> string" where
  "digits n = (if n < 10 then [digit_char n] else digits (n div 10) @ [digit_char (n mod 10)])"

declare digits.simps [simp del]

definition index_of :: "string \<Rightarrow> nat \<Rightarrow> nat option" where
  "index_of key n = find (\<lambda>i. digits i = key) [0..<n]"

text \<open>
  A key is an array index when it is the decimal numeral, without sign, leading zero or
  fraction, of an integer from 0 to 4294967294.
\<close>

definition digit_of :: "char \<Rightarrow> nat option" where
  "digit_of c =
     map_of [(CHR ''0'', 0), (CHR ''1'', 1), (CHR ''2'', 2), (CHR ''3'', 3), (CHR ''4'', 4),
             (CHR ''5'', 5), (CHR ''6'', 6), (CHR ''7'', 7), (CHR ''8'', 8), (CHR ''9'', 9)] c"

fun decimal_of :: "nat \<Rightarrow> string \<Rightarrow> nat option" where
  "decimal_of a [] = Some a"
| "decimal_of a (c # cs) =
     (case digit_of c of None \<Rightarrow> None | Some d \<Rightarrow> decimal_of (10 * a + d) cs)"

definition array_index :: "string \<Rightarrow> nat option" where
  "array_index key =
     (case decimal_of 0 key of
        None \<Rightarrow> None
      | Some n \<Rightarrow> if key \<noteq> [] \<and> digits n = key \<and> n < 4294967295 then Some n else None)"

text \<open>
  The order of the own keys of a record: the array indices first, in ascending numeric
  order, then the other keys in the order they were added.
\<close>

definition own_keys :: "string list \<Rightarrow> string list" where
  "own_keys ks =
     sort_key (\<lambda>k. the (array_index k)) (filter (\<lambda>k. array_index k \<noteq> None) ks)
     @ filter (\<lambda>k. array_index k = None) ks"

text \<open>\<^verbatim>\<open>Object.keys(v)\<close>: throws on undefined and null.\<close>

fun object_keys :: "jsval \<Rightarrow> jserror + string list" where
  "object_keys Undefined = Inl TypeError"
| "object_keys Null = Inl TypeError"
| "object_keys (VBool b) = Inr []"
| "object_keys (VNum n) = Inr []"
| "object_keys (VStr s) = Inr (map digits [0..<length s])"
| "object_keys (VArr xs) = Inr (map digits [0..<length xs])"
| "object_keys (VObj kvs) = Inr (own_keys (map fst kvs))"

subsection \<open>Property reads\<close>

fun kind_of :: "jsval \<Rightarrow> kind" where
  "kind_of (VBool b) = KBool"
| "kind_of (VNum n) = KNum"
| "kind_of (VStr s) = KStr"
| "kind_of (VArr xs) = KArr"
| "kind_of v = KObj"

text \<open>The own property of a value under a key: the characters and the length of a string,
  the elements and the length of an array, the properties of a record.\<close>

fun own_prop :: "jsval \<Rightarrow> string \<Rightarrow> jsval option" where
  "own_prop (VStr s) key =
     (case index_of key (length s) of
        Some i \<Rightarrow> Some (VStr [s ! i])
      | None \<Rightarrow> if key = ''length'' then Some (VNum (Fin (of_nat (length s)))) else None)"
| "own_prop (VArr xs) key =
     (case index_of key (length xs) of
        Some i \<Rightarrow> Some (xs ! i)
      | None \<Rightarrow> if key = ''length'' then Some (VNum (Fin (of_nat (length xs)))) else None)"
| "own_prop (VObj kvs) key = map_of kvs key"
| "own_prop v key = None"

text \<open>\<^verbatim>\<open>v[key]\<close> on a value that is not undefined or null: the own property, else the
  inherited member, else undefined.\<close>

definition member_of :: "runtime \<Rightarrow> jsval \<Rightarrow> string \<Rightarrow> member" where
  "member_of rt v key =
     (case own_prop v key of
        Some x \<Rightarrow> Own x
      | None \<Rightarrow>
          (case inherited rt (kind_of v) key of
             Some n \<Rightarrow> Inherited n
           | None \<Rightarrow> Own Undefined))"

text \<open>\<^verbatim>\<open>v[key]\<close>: throws on undefined and null.\<close>

fun get_prop :: "runtime \<Rightarrow> jsval \<Rightarrow> string \<Rightarrow> jserror + member" where
  "get_prop rt Undefined key = Inl TypeError"
| "get_prop rt Null key = Inl TypeError"
| "get_prop rt v key = Inr (member_of rt v key)"

subsection \<open>The calls on the 2D context\<close>

datatype caption = ToFixed jsnum nat | Lit string

datatype op =
    ClearRect jsnum jsnum jsnum jsnum
  | SetStrokeStyle string
  | SetLineWidth rat
  | BeginPath
  | MoveTo jsnum jsnum
  | LineTo jsnum jsnum
  | Stroke
  | SetFillStyle string
  | FillRect jsnum jsnum jsnum jsnum
  | SetFont string
  | FillText caption jsnum jsnum

record canvas =
  width :: nat
  height :: nat

type_synonym outcome = "op list \<times> jserror option"

text \<open>Sequencing: what follows a throw does not run.\<close>

fun seq :: "outcome \<Rightarrow> outcome \<Rightarrow> outcome" where
  "seq (ops, Some e) r = (ops, Some e)"
| "seq (ops, None) (ops', r) = (ops @ ops', r)"

text \<open>\<^verbatim>\<open>xs.forEach((x, i) => f(i, x))\<close>, the index starting at \<open>i\<close>.\<close>

fun forEach :: "(nat \<Rightarrow> 'a \<Rightarrow> outcome) \<Rightarrow> nat \<Rightarrow> 'a list \<Rightarrow> outcome" where
  "forEach f i [] = ([], None)"
| "forEach f i (x # xs) = seq (f i x) (forEach f (Suc i) xs)"

subsection \<open>ChartCanvas\<close>

definition colors :: "string list" where
  "colors = [''#7c5cff'', ''#22c55e'', ''#fbbf24'', ''#ef4444'']"

definition grid_line :: "nat \<Rightarrow> nat \<Rightarrow> nat \<Rightarrow> op list" where
  "grid_line W H i =
     (let y = Fin (20 + (of_nat H - 40) * (of_nat i / 4))
      in [BeginPath, MoveTo (Fin 0) y, LineTo (Fin (of_nat W)) y, Stroke])"

definition clear_and_grid :: "nat \<Rightarrow> nat \<Rightarrow> op list" where
  "clear_and_grid W H =
     [ClearRect (Fin 0) (Fin 0) (Fin (of_nat W)) (Fin (of_nat H)),
      SetStrokeStyle ''rgba(255,255,255,0.1)'',
      SetLineWidth 1]
     @ concat (map (grid_line W H) [0..<5])"

text \<open>The callback of \<^verbatim>\<open>data.forEach\<close> in the line graph: one point of one channel.\<close>

definition motion_point ::
  "runtime \<Rightarrow> nat \<Rightarrow> nat \<Rightarrow> nat \<Rightarrow> string \<Rightarrow> nat \<Rightarrow> jsval \<Rightarrow> outcome" where
  "motion_point rt W H n key i point =
     (case get_prop rt point key of
        Inl e \<Rightarrow> ([], Some e)
      | Inr m \<Rightarrow>
          let x = Fin (of_nat i / of_nat (n - 1) * of_nat W);
              val = (if truthy_member m then m else Own (VNum (Fin 0)));
              y = nsub (Fin (of_nat H - 20))
                    (nmul (member_to_number rt val) (Fin (of_nat H - 40)))
          in ([if i = 0 then MoveTo x y else LineTo x y], None))"

text \<open>The callback of \<^verbatim>\<open>keys.forEach\<close> in the line graph: one stroked path.\<close>

definition motion_channel ::
  "runtime \<Rightarrow> nat \<Rightarrow> nat \<Rightarrow> jsval list \<Rightarrow> nat \<Rightarrow> string \<Rightarrow> outcome" where
  "motion_channel rt W H data idx key =
     seq ([BeginPath, SetStrokeStyle (colors ! (idx mod length colors)), SetLineWidth 2], None)
       (seq (forEach (motion_point rt W H (length data) key) 0 data)
          ([Stroke], None))"

text \<open>\<^verbatim>\<open>key.replace(/_/g, ' ').split(' ')[0]\<close>\<close>

definition short_label :: "string \<Rightarrow> string" where
  "short_label key =
     takeWhile (\<lambda>c. c \<noteq> CHR '' '') (map (\<lambda>c. if c = CHR ''_'' then CHR '' '' else c) key)"

text \<open>The callback of \<^verbatim>\<open>keys.forEach\<close> in the bar chart: one bar and its two labels.
  \<^verbatim>\<open>val.toFixed\<close> is a function on numbers only.\<close>

definition bar ::
  "runtime \<Rightarrow> nat \<Rightarrow> nat \<Rightarrow> jsval \<Rightarrow> rat \<Rightarrow> nat \<Rightarrow> string \<Rightarrow> outcome" where
  "bar rt W H data barW i key =
     (case get_prop rt data key of
        Inl e \<Rightarrow> ([], Some e)
      | Inr m \<Rightarrow>
          let val = (if truthy_member m then m else Own (VNum (Fin 0)));
              h = nmul (member_to_number rt val) (Fin (of_nat H - 40));
              x = Fin (10 + of_nat i * barW + 5);
              y = nsub (Fin (of_nat H - 20)) h
          in seq ([SetFillStyle ''rgba(124,92,255,0.85)'',
                   FillRect x y (Fin (barW - 10)) h,
                   SetFillStyle ''#fff'',
                   SetFont ''11px sans-serif''], None)
               (case val of
                  Own (VNum n) \<Rightarrow>
                    ([FillText (ToFixed n 2) x (nsub y (Fin 6)),
                      SetFillStyle ''rgba(255,255,255,0.6)'',
                      SetFont ''10px sans-serif'',
                      FillText (Lit (short_label key)) x (Fin (of_nat H - 5))], None)
                | _ \<Rightarrow> ([], Some TypeError)))"

text \<open>\<^verbatim>\<open>Array.isArray(data) && data.length > 1\<close>\<close>

fun is_long_array :: "jsval \<Rightarrow> bool" where
  "is_long_array (VArr xs) = (length xs > 1)"
| "is_long_array _ = False"

fun elements :: "jsval \<Rightarrow> jsval list" where
  "elements (VArr xs) = xs"
| "elements _ = []"

text \<open>\<^verbatim>\<open>typeof data === 'object'\<close>: null, arrays and objects.\<close>

fun typeof_object :: "jsval \<Rightarrow> bool" where
  "typeof_object Null = True"
| "typeof_object (VArr xs) = True"
| "typeof_object (VObj kvs) = True"
| "typeof_object _ = False"

definition motion_graph :: "runtime \<Rightarrow> nat \<Rightarrow> nat \<Rightarrow> jsval list \<Rightarrow> outcome" where
  "motion_graph rt W H data =
     (case object_keys (hd data) of
        Inl e \<Rightarrow> ([], Some e)
      | Inr ks \<Rightarrow>
          forEach (motion_channel rt W H data) 0 (filter (\<lambda>k. k \<noteq> ''time'') ks))"

definition bar_chart :: "runtime \<Rightarrow> nat \<Rightarrow> nat \<Rightarrow> jsval \<Rightarrow> outcome" where
  "bar_chart rt W H data =
     (case object_keys data of
        Inl e \<Rightarrow> ([], Some e)
      | Inr keys \<Rightarrow>
          if length keys = 0 then ([], None)
          else let barW = (of_nat W - 20) / of_nat (length keys)
               in forEach (bar rt W H data barW) 0 keys)"

text \<open>The effect of the component: the calls made on the context and the exception, if
  one ended the effect.\<close>

definition ChartCanvas :: "runtime \<Rightarrow> canvas option \<Rightarrow> jsval \<Rightarrow> string \<Rightarrow> outcome" where
  "ChartCanvas rt canvas data type =
     (case canvas of
        None \<Rightarrow> ([], None)
      | Some c \<Rightarrow>
          if \<not> truthy data then ([], None)
          else
            let W = width c; H = height c
            in seq (clear_and_grid W H, None)
                 (if type = ''motion'' \<and> is_long_array data then motion_graph rt W H (elements data)
                  else if type = ''bar'' \<and> typeof_object data then bar_chart rt W H data
                  else ([], None)))"

subsection \<open>What the calls paint\<close>

text \<open>
  The part of the 2D context the component uses: the two styles, the line width, the
  font and the current path. \<open>run\<close> replays a list of calls from a state of the context
  and gives the state it leaves and the primitives painted, each with the geometry and
  the styles it was painted with. What the component never sets (the transform, the
  alpha, the dash pattern, the text alignment) is left out: no call changes it.
\<close>

record ctx2d =
  strokeStyle :: string
  lineWidth :: rat
  fillStyle :: string
  font :: string
  path :: "(bool \<times> jsnum \<times> jsnum) list"

datatype prim =
    Cleared jsnum jsnum jsnum jsnum
  | StrokedPath string rat "(bool \<times> jsnum \<times> jsnum) list"
  | FilledRect string jsnum jsnum jsnum jsnum
  | DrawnText string string caption jsnum jsnum

fun step :: "ctx2d \<Rightarrow> op \<Rightarrow> ctx2d \<times> prim list" where
  "step s (ClearRect x y w h) = (s, [Cleared x y w h])"
| "step s (SetStrokeStyle c) = (s\<lparr>strokeStyle := c\<rparr>, [])"
| "step s (SetLineWidth w) = (s\<lparr>lineWidth := w\<rparr>, [])"
| "step s BeginPath = (s\<lparr>path := []\<rparr>, [])"
| "step s (MoveTo x y) = (s\<lparr>path := path s @ [(True, x, y)]\<rparr>, [])"
| "step s (LineTo x y) = (s\<lparr>path := path s @ [(False, x, y)]\<rparr>, [])"
| "step s Stroke = (s, [StrokedPath (strokeStyle s) (lineWidth s) (path s)])"
| "step s (SetFillStyle c) = (s\<lparr>fillStyle := c\<rparr>, [])"
| "step s (FillRect x y w h) = (s, [FilledRect (fillStyle s) x y w h])"
| "step s (SetFont f) = (s\<lparr>font := f\<rparr>, [])"
| "step s (FillText t x y) = (s, [DrawnText (fillStyle s) (font s) t x y])"

fun run :: "ctx2d \<Rightarrow> op list \<Rightarrow> ctx2d \<times> prim list" where
  "run s [] = (s, [])"
| "run s (c # cs) =
     (let r = run (fst (step s c)) cs in (fst r, snd (step s c) @ snd r))"




text \<open>The x-origin and the width of every filled rectangle, in the order they are
  filled.\<close>

fun bar_spans :: "op list \<Rightarrow> (jsnum \<times> jsnum) list" where
  "bar_spans [] = []"
| "bar_spans (FillRect x y w h # ops) = (x, w) # bar_spans ops"
| "bar_spans (_ # ops) = bar_spans ops"

text \<open>A rectangle of origin \<open>x\<close> and width \<open>w\<close> covers the interval between \<open>x\<close> and
  \<open>x + w\<close>, to the left of \<open>x\<close> when \<open>w\<close> is negative. Two rectangles overlap
  horizontally when the interiors of their intervals meet.\<close>

fun overlap :: "jsnum \<times> jsnum \<Rightarrow> jsnum \<times> jsnum \<Rightarrow> bool" where
  "overlap (Fin x1, Fin w1) (Fin x2, Fin w2) =
     (min x1 (x1 + w1) < max x2 (x2 + w2) \<and> min x2 (x2 + w2) < max x1 (x1 + w1))"
| "overlap _ _ = False"

text \<open>The rational of a number that is not NaN.\<close>

fun the_fin :: "jsnum \<Rightarrow> rat" where
  "the_fin (Fin q) = q"
| "the_fin NaN = 0"


text \<open>A list of calls repaints when the primitives it paints do not depend on the state
  of the context it starts from.\<close>

definition repaints :: "op list \<Rightarrow> bool" where
  "repaints ops = (\<forall>s s'. snd (run s ops) = snd (run s' ops))"

text \<open>The calls that add a point to the current path, and the point they add.\<close>

fun is_point :: "op \<Rightarrow> bool" where
  "is_point (MoveTo x y) = True"
| "is_point (LineTo x y) = True"
| "is_point _ = False"

fun point_of :: "op \<Rightarrow> bool \<times> jsnum \<times> jsnum" where
  "point_of (MoveTo x y) = (True, x, y)"
| "point_of (LineTo x y) = (False, x, y)"
| "point_of _ = (False, NaN, NaN)"

text \<open>
  A runtime for the closed examples. The members of \<^verbatim>\<open>Object.prototype\<close> are inherited
  by every value, each with the number NaN, and no string or array is a number. The
  closed examples read members of records only and plot no string and no array.
\<close>

definition object_prototype :: "string list" where
  "object_prototype =
     [''constructor'', ''hasOwnProperty'', ''isPrototypeOf'', ''propertyIsEnumerable'',
      ''toLocaleString'', ''toString'', ''valueOf'', ''__proto__'',
      ''__defineGetter__'', ''__defineSetter__'', ''__lookupGetter__'', ''__lookupSetter__'']"

definition plain_runtime :: runtime where
  "plain_runtime =
     \<lparr>string_to_number = (\<lambda>v. NaN),
      inherited = (\<lambda>k key. if key \<in> set object_prototype then Some NaN else None)\<rparr>"

section \<open>Properties\<close>

subsection \<open>Sequencing and forEach\<close>

lemma seq_None_left [simp]: "seq (ops, None) r = (ops @ fst r, snd r)"
  by (cases r) simp

lemma fst_seq: "fst (seq a b) = (if snd a = None then fst a @ fst b else fst a)"
  by (cases a; cases b; cases "snd a") auto

lemma snd_seq: "snd (seq a b) = (if snd a = None then snd b else snd a)"
  by (cases a; cases b; cases "snd a") auto

lemma forEach_ok:
  "(\<And>j x. x \<in> set xs \<Longrightarrow> snd (f j x) = None) \<Longrightarrow>
   forEach f i xs = (concat (map (\<lambda>(j, x). fst (f j x)) (enumerate i xs)), None)"
proof (induction xs arbitrary: i)
  case Nil
  then show ?case by simp
next
  case (Cons x xs)
  have "snd (f i x) = None" using Cons.prems by simp
  then obtain ops where fx: "f i x = (ops, None)" by (cases "f i x") auto
  have "forEach f (Suc i) xs = (concat (map (\<lambda>(j, x). fst (f j x)) (enumerate (Suc i) xs)), None)"
    using Cons.IH Cons.prems by simp
  then show ?case using fx by simp
qed




subsection \<open>Clear and grid\<close>

lemma upt_0_5: "[0..<5] = [0, 1, 2, 3, 4]"
  by (simp add: upt_rec)

lemma clear_and_grid_calls:
  "clear_and_grid W H =
     [ClearRect (Fin 0) (Fin 0) (Fin (of_nat W)) (Fin (of_nat H)),
      SetStrokeStyle ''rgba(255,255,255,0.1)'', SetLineWidth 1,
      BeginPath, MoveTo (Fin 0) (Fin 20), LineTo (Fin (of_nat W)) (Fin 20), Stroke,
      BeginPath, MoveTo (Fin 0) (Fin (20 + (of_nat H - 40) / 4)),
        LineTo (Fin (of_nat W)) (Fin (20 + (of_nat H - 40) / 4)), Stroke,
      BeginPath, MoveTo (Fin 0) (Fin (20 + (of_nat H - 40) / 2)),
        LineTo (Fin (of_nat W)) (Fin (20 + (of_nat H - 40) / 2)), Stroke,
      BeginPath, MoveTo (Fin 0) (Fin (20 + 3 * (of_nat H - 40) / 4)),
        LineTo (Fin (of_nat W)) (Fin (20 + 3 * (of_nat H - 40) / 4)), Stroke,
      BeginPath, MoveTo (Fin 0) (Fin (of_nat H - 20)),
        LineTo (Fin (of_nat W)) (Fin (of_nat H - 20)), Stroke]"
  by (simp add: clear_and_grid_def grid_line_def upt_0_5 Let_def)

lemma ChartCanvas_truthy:
  "truthy data \<Longrightarrow>
   \<exists>body. fst (ChartCanvas rt (Some c) data type) = clear_and_grid (width c) (height c) @ body"
  by (simp add: ChartCanvas_def Let_def)

subsection \<open>Array indices\<close>

lemma digits_0: "digits 0 = ''0''"
  by (simp add: digits.simps digit_char_def)

lemma digits_1: "digits (Suc 0) = ''1''"
  by (simp add: digits.simps digit_char_def)


lemma upt_0_2: "[0..<2] = [0, Suc 0]"
  by (simp add: upt_rec)

lemmas eval_keys = own_keys_def array_index_def digit_of_def member_of_def

lemma set_own_keys: "set (own_keys ks) = set ks"
  by (auto simp: own_keys_def)

lemma length_own_keys: "length (own_keys ks) = length ks"
proof -
  have "length (filter (\<lambda>k. array_index k \<noteq> None) ks) + length (filter (\<lambda>k. \<not> array_index k \<noteq> None) ks)
        = length ks"
    by (rule sum_length_filter_compl)
  then show ?thesis by (simp add: own_keys_def)
qed




subsection \<open>Shape mismatch\<close>

text \<open>A mapping given to the line graph: the chart body makes no call and nothing is
  thrown.\<close>

lemma mapping_as_motion:
  "ChartCanvas rt (Some c) (VObj kvs) ''motion'' = (clear_and_grid (width c) (height c), None)"
  by (simp add: ChartCanvas_def Let_def)

text \<open>
  C1 (the code departs from it). A sequence given to the bar chart is not skipped: an
  array passes \<^verbatim>\<open>typeof data === 'object'\<close>, its indices are taken as categories and
  its frames as values. On the timeline
  \<^verbatim>\<open>[{time: 0, openness: 0.5}, {time: 1, openness: 0.6}]\<close> the first bar is filled with
  a NaN height and the effect ends in a TypeError at \<^verbatim>\<open>val.toFixed\<close>.
\<close>

theorem sequence_as_bar_throws:
  "ChartCanvas rt (Some \<lparr>width = 800, height = 200\<rparr>)
     (VArr [VObj [(''time'', VNum (Fin 0)), (''openness'', VNum (Fin (1/2)))],
            VObj [(''time'', VNum (Fin 1)), (''openness'', VNum (Fin (3/5)))]]) ''bar''
   = (clear_and_grid 800 200 @
      [SetFillStyle ''rgba(124,92,255,0.85)'',
       FillRect (Fin 15) NaN (Fin 380) NaN,
       SetFillStyle ''#fff'',
       SetFont ''11px sans-serif''],
      Some TypeError)"
  by (simp add: ChartCanvas_def bar_chart_def bar_def Let_def upt_0_2 index_of_def
      digits_0 digits_1 member_of_def)

subsection \<open>Absent data\<close>

text \<open>
  C2, as the code has it. When \<^verbatim>\<open>data\<close> is truthy, the calls of the effect start with
  the clearing of the whole \<open>W \<times> H\<close> region and the five guide lines from \<open>x = 0\<close> to
  \<open>x = W\<close> at \<open>y = 20\<close>, \<open>20 + (H - 40) / 4\<close>, \<open>20 + (H - 40) / 2\<close>,
  \<open>20 + 3 (H - 40) / 4\<close> and \<open>H - 20\<close>. When \<^verbatim>\<open>data\<close> is falsy (absent), the effect
  returns before the clearing: it makes no call at all and throws nothing.
\<close>

theorem clear_and_grid_unless_data_falsy:
  "(truthy data \<longrightarrow>
      prefix
        [ClearRect (Fin 0) (Fin 0) (Fin (of_nat (width c))) (Fin (of_nat (height c))),
         SetStrokeStyle ''rgba(255,255,255,0.1)'', SetLineWidth 1,
         BeginPath, MoveTo (Fin 0) (Fin 20), LineTo (Fin (of_nat (width c))) (Fin 20), Stroke,
         BeginPath, MoveTo (Fin 0) (Fin (20 + (of_nat (height c) - 40) / 4)),
           LineTo (Fin (of_nat (width c))) (Fin (20 + (of_nat (height c) - 40) / 4)), Stroke,
         BeginPath, MoveTo (Fin 0) (Fin (20 + (of_nat (height c) - 40) / 2)),
           LineTo (Fin (of_nat (width c))) (Fin (20 + (of_nat (height c) - 40) / 2)), Stroke,
         BeginPath, MoveTo (Fin 0) (Fin (20 + 3 * (of_nat (height c) - 40) / 4)),
           LineTo (Fin (of_nat (width c))) (Fin (20 + 3 * (of_nat (height c) - 40) / 4)), Stroke,
         BeginPath, MoveTo (Fin 0) (Fin (of_nat (height c) - 20)),
           LineTo (Fin (of_nat (width c))) (Fin (of_nat (height c) - 20)), Stroke]
        (fst (ChartCanvas rt (Some c) data type)))
   \<and> (\<not> truthy data \<longrightarrow> ChartCanvas rt (Some c) data type = ([], None))"
proof (intro conjI impI)
  assume "truthy data"
  then obtain body where
    "fst (ChartCanvas rt (Some c) data type) = clear_and_grid (width c) (height c) @ body"
    using ChartCanvas_truthy by blast
  then show "prefix
        [ClearRect (Fin 0) (Fin 0) (Fin (of_nat (width c))) (Fin (of_nat (height c))),
         SetStrokeStyle ''rgba(255,255,255,0.1)'', SetLineWidth 1,
         BeginPath, MoveTo (Fin 0) (Fin 20), LineTo (Fin (of_nat (width c))) (Fin 20), Stroke,
         BeginPath, MoveTo (Fin 0) (Fin (20 + (of_nat (height c) - 40) / 4)),
           LineTo (Fin (of_nat (width c))) (Fin (20 + (of_nat (height c) - 40) / 4)), Stroke,
         BeginPath, MoveTo (Fin 0) (Fin (20 + (of_nat (height c) - 40) / 2)),
           LineTo (Fin (of_nat (width c))) (Fin (20 + (of_nat (height c) - 40) / 2)), Stroke,
         BeginPath, MoveTo (Fin 0) (Fin (20 + 3 * (of_nat (height c) - 40) / 4)),
           LineTo (Fin (of_nat (width c))) (Fin (20 + 3 * (of_nat (height c) - 40) / 4)), Stroke,
         BeginPath, MoveTo (Fin 0) (Fin (of_nat (height c) - 20)),
           LineTo (Fin (of_nat (width c))) (Fin (of_nat (height c) - 20)), Stroke]
        (fst (ChartCanvas rt (Some c) data type))"
    unfolding clear_and_grid_calls [symmetric] by (simp add: prefix_def)
next
  assume "\<not> truthy data"
  then show "ChartCanvas rt (Some c) data type = ([], None)"
    by (simp add: ChartCanvas_def)
qed

text \<open>The theorem of C2 on the 800 by 200 canvas: on a mapping of one category the calls start
  with the clearing and the guide lines at 20, 60, 100, 140 and 180; on \<^verbatim>\<open>null\<close> there is
  no call.\<close>

theorem clear_and_grid_unless_data_falsy_witness:
  "truthy (VObj [(''openness'', VNum (Fin (1/2)))])
   \<and> prefix
        [ClearRect (Fin 0) (Fin 0) (Fin 800) (Fin 200),
         SetStrokeStyle ''rgba(255,255,255,0.1)'', SetLineWidth 1,
         BeginPath, MoveTo (Fin 0) (Fin 20), LineTo (Fin 800) (Fin 20), Stroke,
         BeginPath, MoveTo (Fin 0) (Fin 60), LineTo (Fin 800) (Fin 60), Stroke,
         BeginPath, MoveTo (Fin 0) (Fin 100), LineTo (Fin 800) (Fin 100), Stroke,
         BeginPath, MoveTo (Fin 0) (Fin 140), LineTo (Fin 800) (Fin 140), Stroke,
         BeginPath, MoveTo (Fin 0) (Fin 180), LineTo (Fin 800) (Fin 180), Stroke]
        (fst (ChartCanvas plain_runtime (Some \<lparr>width = 800, height = 200\<rparr>)
                (VObj [(''openness'', VNum (Fin (1/2)))]) ''bar''))
   \<and> \<not> truthy Null
   \<and> ChartCanvas plain_runtime (Some \<lparr>width = 800, height = 200\<rparr>) Null ''bar'' = ([], None)"
  using clear_and_grid_unless_data_falsy [of "VObj [(''openness'', VNum (Fin (1/2)))]"
          "\<lparr>width = 800, height = 200\<rparr>" plain_runtime "''bar''"]
        clear_and_grid_unless_data_falsy [of Null "\<lparr>width = 800, height = 200\<rparr>" plain_runtime "''bar''"]
  by simp

text \<open>C2 as the specification states it fails: with \<^verbatim>\<open>data\<close> undefined the calls of
  the effect do not start with the clearing and the grid (there is no call).\<close>

theorem absent_data_counterexample:
  "\<not> prefix (clear_and_grid 800 200)
       (fst (ChartCanvas plain_runtime (Some \<lparr>width = 800, height = 200\<rparr>) Undefined ''motion''))"
  by (simp add: ChartCanvas_def clear_and_grid_def)

subsection \<open>The line graph\<close>











subsection \<open>Stroked paths\<close>





lemma motion_points_are_points:
  "list_all is_point (fst (forEach (motion_point rt W H n key) i data))"
proof (induction data arbitrary: i)
  case Nil
  then show ?case by simp
next
  case (Cons p ps)
  have "list_all is_point (fst (motion_point rt W H n key i p))"
    by (auto simp: motion_point_def Let_def split: sum.splits)
  then show ?case using Cons by (simp add: fst_seq)
qed







subsection \<open>Falsy values\<close>

text \<open>The falsy values of the model.\<close>

lemma falsy_values:
  "\<not> truthy v \<longleftrightarrow> v \<in> {Undefined, Null, VBool False, VNum NaN, VNum (Fin 0), VStr []}"
  by (cases v rule: truthy.cases) auto











text \<open>A key that a record lacks but inherits reads a function, which is truthy and not a
  number: the point is not put at the baseline.\<close>

lemma inherited_member_is_not_zero:
  "motion_point plain_runtime 800 200 2 ''constructor'' 1 (VObj [(''time'', VNum (Fin 1))])
   = ([LineTo (Fin 800) NaN], None)"
  by (simp add: motion_point_def member_of_def plain_runtime_def object_prototype_def)



subsection \<open>Channels\<close>















subsection \<open>Adding a channel\<close>







subsection \<open>The bar chart\<close>

lemma bar_spans_append: "bar_spans (a @ b) = bar_spans a @ bar_spans b"
  by (induction a rule: bar_spans.induct) simp_all

lemma bar_spans_grid: "bar_spans (clear_and_grid W H) = []"
  by (simp add: clear_and_grid_calls)

lemma map_of_numbers:
  "key \<in> set (map fst cats) \<Longrightarrow>
   \<exists>n. map_of (map (\<lambda>(k, n). (k, VNum n)) cats) key = Some (VNum n)"
  by (induction cats) auto

lemma bar_number:
  assumes "map_of kvs key = Some (VNum n)"
  shows "snd (bar rt W H (VObj kvs) barW i key) = None"
    and "bar_spans (fst (bar rt W H (VObj kvs) barW i key))
         = [(Fin (10 + of_nat i * barW + 5), Fin (barW - 10))]"
  using assms by (simp_all add: bar_def Let_def member_of_def)

lemma bars_spans:
  assumes "\<And>key. key \<in> set ks \<Longrightarrow> \<exists>n. map_of kvs key = Some (VNum n)"
  shows "bar_spans (concat (map (\<lambda>(j, key). fst (bar rt W H (VObj kvs) barW j key)) (enumerate i ks)))
       = map (\<lambda>j. (Fin (10 + of_nat j * barW + 5), Fin (barW - 10))) [i..<i + length ks]"
  using assms
proof (induction ks arbitrary: i)
  case Nil
  then show ?case by simp
next
  case (Cons key ks)
  obtain n where n: "map_of kvs key = Some (VNum n)" using Cons.prems by auto
  have "[i..<i + length (key # ks)] = i # [Suc i..<Suc i + length ks]"
    by (simp add: upt_rec)
  then show ?case using Cons n by (simp add: bar_spans_append bar_number(2))
qed

lemma keys_of_numbers: "map fst (map (\<lambda>(k, n). (k, VNum n)) cats) = map fst cats"
  by (induction cats) auto

lemma bar_chart_numbers:
  assumes "cats \<noteq> []"
  shows "ChartCanvas rt (Some c) (VObj (map (\<lambda>(k, n). (k, VNum n)) cats)) ''bar'' =
           (clear_and_grid (width c) (height c) @
            concat (map (\<lambda>(j, key).
                      fst (bar rt (width c) (height c) (VObj (map (\<lambda>(k, n). (k, VNum n)) cats))
                             ((of_nat (width c) - 20) / of_nat (length cats)) j key))
                    (enumerate 0 (own_keys (map fst cats)))), None)"
proof -
  define kvs where "kvs = map (\<lambda>(k, n). (k, VNum n)) cats"
  define keys where "keys = own_keys (map fst cats)"
  define barW :: rat where "barW = (of_nat (width c) - 20) / of_nat (length cats)"
  have keys: "own_keys (map fst kvs) = keys" unfolding kvs_def keys_def by (simp only: keys_of_numbers)
  have len: "length keys = length cats" unfolding keys_def by (simp add: length_own_keys)
  have "forEach (bar rt (width c) (height c) (VObj kvs) barW) 0 keys =
          (concat (map (\<lambda>(j, key). fst (bar rt (width c) (height c) (VObj kvs) barW j key))
                     (enumerate 0 keys)), None)"
  proof (rule forEach_ok)
    fix j key
    assume "key \<in> set keys"
    then have "key \<in> set (map fst cats)" unfolding keys_def by (simp only: set_own_keys)
    then have "\<exists>n. map_of kvs key = Some (VNum n)" unfolding kvs_def by (rule map_of_numbers)
    then obtain n where "map_of kvs key = Some (VNum n)" ..
    then show "snd (bar rt (width c) (height c) (VObj kvs) barW j key) = None"
      by (rule bar_number(1))
  qed
  moreover have "keys \<noteq> []" using assms len by auto
  ultimately have "ChartCanvas rt (Some c) (VObj kvs) ''bar'' =
           (clear_and_grid (width c) (height c) @
            concat (map (\<lambda>(j, key). fst (bar rt (width c) (height c) (VObj kvs) barW j key))
                    (enumerate 0 keys)), None)"
    using assms by (simp add: ChartCanvas_def bar_chart_def Let_def keys len barW_def)
  then show ?thesis unfolding kvs_def barW_def keys_def .
qed

lemma bar_chart_spans:
  assumes "cats \<noteq> []"
  shows "bar_spans (fst (ChartCanvas rt (Some c) (VObj (map (\<lambda>(k, n). (k, VNum n)) cats)) ''bar''))
       = map (\<lambda>j. (Fin (10 + of_nat j * ((of_nat (width c) - 20) / of_nat (length cats)) + 5),
                    Fin ((of_nat (width c) - 20) / of_nat (length cats) - 10)))
           [0..<length cats]"
proof -
  have "\<exists>n. map_of (map (\<lambda>(k, n). (k, VNum n)) cats) key = Some (VNum n)"
    if "key \<in> set (own_keys (map fst cats))" for key
    using that map_of_numbers [of key cats] by (simp only: set_own_keys)
  then have "bar_spans (concat (map (\<lambda>(j, key).
                      fst (bar rt (width c) (height c) (VObj (map (\<lambda>(k, n). (k, VNum n)) cats))
                             ((of_nat (width c) - 20) / of_nat (length cats)) j key))
                    (enumerate 0 (own_keys (map fst cats)))))
      = map (\<lambda>j. (Fin (10 + of_nat j * ((of_nat (width c) - 20) / of_nat (length cats)) + 5),
                    Fin ((of_nat (width c) - 20) / of_nat (length cats) - 10)))
           [0..<0 + length (own_keys (map fst cats))]"
    by (rule bars_spans)
  then show ?thesis
    by (simp add: bar_chart_numbers [OF assms] bar_spans_append bar_spans_grid length_own_keys)
qed

lemma slots_apart:
  fixes slot :: rat
  assumes "i < j" and "0 \<le> slot"
  shows "of_nat i * slot + slot \<le> of_nat j * slot"
proof -
  have "(of_nat (Suc i) :: rat) \<le> of_nat j" using assms(1) by simp
  then have "of_nat (Suc i) * slot \<le> of_nat j * slot" using assms(2) by (rule mult_right_mono)
  then show ?thesis by (simp add: algebra_simps)
qed

lemma spans_disjoint:
  fixes slot :: rat
  assumes "i < j" and "5 \<le> slot"
  shows "\<not> overlap (Fin (10 + of_nat i * slot + 5), Fin (slot - 10))
                   (Fin (10 + of_nat j * slot + 5), Fin (slot - 10))"
proof -
  have "of_nat i * slot + slot \<le> of_nat j * slot"
    using assms by (intro slots_apart) simp_all
  then show ?thesis using assms(2) by (simp add: min_def max_def)
qed

lemma zip_numbers:
  "zip ks (replicate m (VNum q)) = map (\<lambda>(k, n). (k, VNum n)) (zip ks (replicate m q))"
  by (simp add: zip_map2 flip: map_replicate)

text \<open>
  C5, as the code has it. In the bar chart of a mapping of \<open>m \<ge> 1\<close> categories to
  numbers, with \<open>slot = (W - 20) / m\<close>, the bar of slot \<open>j\<close> is filled from
  \<open>x = 10 + j * slot + 5\<close> with the width \<open>slot - 10\<close>, one bar per category; the sum of
  width plus 10 over the bars is \<open>W - 20\<close>; and when \<open>slot\<close> is at least 5, no two bars
  overlap horizontally. (From \<open>slot \<ge> 10\<close> on the width is not negative. Below 10 it is
  negative and the rectangle lies to the left of its origin.)
\<close>

theorem bar_partition:
  fixes cats :: "(string \<times> jsnum) list" and c :: canvas and rt :: runtime
  defines "spans \<equiv>
    bar_spans (fst (ChartCanvas rt (Some c) (VObj (map (\<lambda>(k, n). (k, VNum n)) cats)) ''bar''))"
  defines "slot \<equiv> (of_nat (width c) - 20) / of_nat (length cats)"
  assumes "cats \<noteq> []"
  shows "spans = map (\<lambda>j. (Fin (10 + of_nat j * slot + 5), Fin (slot - 10))) [0..<length cats]
       \<and> sum_list (map (\<lambda>s. the_fin (snd s) + 10) spans) = of_nat (width c) - 20
       \<and> (5 \<le> slot \<longrightarrow> (\<forall>i j. i < j \<longrightarrow> j < length cats \<longrightarrow> \<not> overlap (spans ! i) (spans ! j)))"
proof -
  have spans: "spans = map (\<lambda>j. (Fin (10 + of_nat j * slot + 5), Fin (slot - 10))) [0..<length cats]"
    unfolding spans_def slot_def using assms(3) by (rule bar_chart_spans)
  have m: "(of_nat (length cats) :: rat) \<noteq> 0" using assms(3) by simp
  have "sum_list (map (\<lambda>s. the_fin (snd s) + 10) spans) = of_nat (length cats) * slot"
    unfolding spans by (simp add: comp_def sum_list_triv)
  also have "\<dots> = of_nat (width c) - 20"
    unfolding slot_def using m by simp
  finally have total: "sum_list (map (\<lambda>s. the_fin (snd s) + 10) spans) = of_nat (width c) - 20" .
  have apart: "\<not> overlap (spans ! i) (spans ! j)"
    if "5 \<le> slot" "i < j" "j < length cats" for i j
    using that spans_disjoint [of i j slot] unfolding spans by simp
  show ?thesis using spans total apart by blast
qed

text \<open>The theorem of C5 on the two categories of the scenario, on the 800 by 200 canvas: bars
  at 15 and 405 of width 380, which sum with the margins to 780 and do not overlap.\<close>

theorem bar_partition_witness:
  "[(''openness'', Fin (1/2)), (''pacing'', Fin 1)] \<noteq> []
   \<and> bar_spans (fst (ChartCanvas plain_runtime (Some \<lparr>width = 800, height = 200\<rparr>)
        (VObj [(''openness'', VNum (Fin (1/2))), (''pacing'', VNum (Fin 1))]) ''bar''))
     = [(Fin 15, Fin 380), (Fin 405, Fin 380)]
   \<and> (380 + 10) + (380 + 10) = (800 - 20 :: rat)
   \<and> (5 :: rat) \<le> (800 - 20) / 2
   \<and> \<not> overlap (Fin 15, Fin 380) (Fin 405, Fin 380)"
  using bar_partition [of "[(''openness'', Fin (1/2)), (''pacing'', Fin 1)]" plain_runtime
      "\<lparr>width = 800, height = 200\<rparr>"]
  by (simp add: upt_0_2)

text \<open>
  C5 as the specification states it fails for many categories: with 200 categories on
  the 800 by 200 canvas, \<open>slot = 3.9\<close> and the width is \<open>-6.1\<close>; the first bar covers
  \<open>8.9\<close> to \<open>15\<close> and the second \<open>12.8\<close> to \<open>18.9\<close>, so they overlap.
\<close>

theorem bars_overlap_counterexample:
  "overlap
     (bar_spans (fst (ChartCanvas plain_runtime (Some \<lparr>width = 800, height = 200\<rparr>)
        (VObj (zip (map digits [0..<200]) (replicate 200 (VNum (Fin 1))))) ''bar'')) ! 0)
     (bar_spans (fst (ChartCanvas plain_runtime (Some \<lparr>width = 800, height = 200\<rparr>)
        (VObj (zip (map digits [0..<200]) (replicate 200 (VNum (Fin 1))))) ''bar'')) ! 1)"
proof -
  let ?cats = "zip (map digits [0..<200]) (replicate 200 (Fin 1))"
  have ne: "?cats \<noteq> []" by (simp add: upt_rec)
  have len: "length ?cats = 200" by simp
  show ?thesis
    unfolding zip_numbers bar_chart_spans [OF ne] len by simp
qed

subsection \<open>The two scenarios\<close>

text \<open>
  C3. On the 800 by 200 canvas the line graph of
  \<^verbatim>\<open>[{t: 0, a: 0.0, b: 1.0}, {t: 1, a: 1.0, b: 0.0}]\<close> strokes channel \<open>a\<close> from
  \<open>(0, 180)\<close> to \<open>(800, 20)\<close> and channel \<open>b\<close> from \<open>(0, 20)\<close> to \<open>(800, 180)\<close>.
  The calls are given in full: after the grid come three paths, since the key \<open>t\<close> is not
  the reserved key \<^verbatim>\<open>time\<close> and is stroked as a channel of its own, before \<open>a\<close> and
  \<open>b\<close>.
\<close>

theorem series_scenario:
  "ChartCanvas rt (Some \<lparr>width = 800, height = 200\<rparr>)
     (VArr [VObj [(''t'', VNum (Fin 0)), (''a'', VNum (Fin 0)), (''b'', VNum (Fin 1))],
            VObj [(''t'', VNum (Fin 1)), (''a'', VNum (Fin 1)), (''b'', VNum (Fin 0))]])
     ''motion''
   = (clear_and_grid 800 200 @
      [BeginPath, SetStrokeStyle ''#7c5cff'', SetLineWidth 2,
         MoveTo (Fin 0) (Fin 180), LineTo (Fin 800) (Fin 20), Stroke,
       BeginPath, SetStrokeStyle ''#22c55e'', SetLineWidth 2,
         MoveTo (Fin 0) (Fin 180), LineTo (Fin 800) (Fin 20), Stroke,
       BeginPath, SetStrokeStyle ''#fbbf24'', SetLineWidth 2,
         MoveTo (Fin 0) (Fin 20), LineTo (Fin 800) (Fin 180), Stroke],
      None)"
  by (simp add: ChartCanvas_def motion_graph_def motion_channel_def motion_point_def
      colors_def Let_def eval_keys)

text \<open>
  C4. On the 800 by 200 canvas the bar chart of \<^verbatim>\<open>{openness: 0.5, pacing: 1.0}\<close> fills
  exactly two rectangles, of width 380, at \<open>x = 15\<close> and \<open>x = 15 + 390\<close>: the bar of
  \<open>openness\<close> of height 80, the bar of \<open>pacing\<close> of height 160, which is the height of
  the plot.
\<close>

theorem categorical_scenario:
  "ChartCanvas rt (Some \<lparr>width = 800, height = 200\<rparr>)
     (VObj [(''openness'', VNum (Fin (1/2))), (''pacing'', VNum (Fin 1))]) ''bar''
   = (clear_and_grid 800 200 @
      [SetFillStyle ''rgba(124,92,255,0.85)'',
       FillRect (Fin 15) (Fin 100) (Fin 380) (Fin 80),
       SetFillStyle ''#fff'', SetFont ''11px sans-serif'',
       FillText (ToFixed (Fin (1/2)) 2) (Fin 15) (Fin 94),
       SetFillStyle ''rgba(255,255,255,0.6)'', SetFont ''10px sans-serif'',
       FillText (Lit ''openness'') (Fin 15) (Fin 195),
       SetFillStyle ''rgba(124,92,255,0.85)'',
       FillRect (Fin 405) (Fin 20) (Fin 380) (Fin 160),
       SetFillStyle ''#fff'', SetFont ''11px sans-serif'',
       FillText (ToFixed (Fin 1) 2) (Fin 405) (Fin 14),
       SetFillStyle ''rgba(255,255,255,0.6)'', SetFont ''10px sans-serif'',
       FillText (Lit ''pacing'') (Fin 405) (Fin 195)],
      None)"
  by (simp add: ChartCanvas_def bar_chart_def bar_def short_label_def Let_def eval_keys)

subsection \<open>Successive renders\<close>

lemma run_append:
  "run s (a @ b) = (fst (run (fst (run s a)) b), snd (run s a) @ snd (run (fst (run s a)) b))"
  by (induction a arbitrary: s) (simp_all add: Let_def)

lemma repaints_Nil: "repaints []"
  by (simp add: repaints_def)

lemma repaints_append: "repaints a \<Longrightarrow> repaints b \<Longrightarrow> repaints (a @ b)"
  unfolding repaints_def run_append snd_conv by metis

lemma run_points:
  "list_all is_point ops \<Longrightarrow>
   run s ops = (s\<lparr>path := path s @ map point_of ops\<rparr>, [])"
proof (induction ops arbitrary: s)
  case Nil
  then show ?case by simp
next
  case (Cons c cs)
  then show ?case by (cases c) (simp_all add: Let_def)
qed

lemma repaints_path:
  assumes "list_all is_point pts"
  shows "repaints ([BeginPath, SetStrokeStyle col, SetLineWidth w] @ pts)"
    and "repaints ([BeginPath, SetStrokeStyle col, SetLineWidth w] @ pts @ [Stroke])"
  by (simp_all add: repaints_def run_append run_points [OF assms] Let_def)

lemma repaints_motion_channel: "repaints (fst (motion_channel rt W H data idx key))"
  using repaints_path [OF motion_points_are_points [of rt W H "length data" key 0 data]]
  by (simp add: motion_channel_def fst_seq snd_seq)

lemma repaints_bar: "repaints (fst (bar rt W H data barW i key))"
  by (auto simp: bar_def Let_def fst_seq repaints_def split: sum.splits member.splits jsval.splits)

lemma repaints_forEach:
  "(\<And>j x. repaints (fst (f j x))) \<Longrightarrow> repaints (fst (forEach f i xs))"
  by (induction xs arbitrary: i) (simp_all add: repaints_Nil fst_seq repaints_append)

lemma repaints_grid: "repaints (clear_and_grid W H)"
  by (simp add: clear_and_grid_calls repaints_def Let_def)

lemma repaints_motion_graph: "repaints (fst (motion_graph rt W H data))"
  by (auto simp: motion_graph_def repaints_Nil repaints_forEach repaints_motion_channel
      split: sum.splits)

lemma repaints_bar_chart: "repaints (fst (bar_chart rt W H data))"
  by (auto simp: bar_chart_def Let_def repaints_Nil repaints_forEach repaints_bar
      split: sum.splits)

lemma repaints_ChartCanvas: "repaints (fst (ChartCanvas rt canvas data type))"
  by (auto simp: ChartCanvas_def Let_def repaints_Nil repaints_grid repaints_append
      repaints_motion_graph repaints_bar_chart split: option.splits)

text \<open>
  C9. The effect reads the canvas size, \<^verbatim>\<open>data\<close> and \<^verbatim>\<open>type\<close> and nothing of the
  context, so two calls with the same inputs make the same calls. What they paint is
  the same too: replayed from the state of the context that the first render leaves, the
  calls of the second render paint the same primitives, with the same coordinates,
  sizes and styles, as the calls of the first render painted from any state \<open>s\<close>,
  because every stroke and fill comes after the effect has set the path and the styles
  it uses.
\<close>

theorem successive_renders_paint_the_same:
  "snd (run (fst (run s (fst (ChartCanvas rt canvas data type))))
          (fst (ChartCanvas rt canvas data type)))
   = snd (run s (fst (ChartCanvas rt canvas data type)))"
  using repaints_ChartCanvas [of rt canvas data type] unfolding repaints_def by blast

end
